theory Spec2Isabelle
  imports Main "HOL-Library.Word" "HOL-Library.Signed_Division"
begin

unbundle bit_operations_syntax

section \<open>Hands-free application: data model\<close>

text \<open>
  The embedding follows \<^verbatim>\<open>src/handsfree_main.c\<close>. The application keeps its state in
  globals (\<^verbatim>\<open>handsfree_ctxt_data\<close>, \<^verbatim>\<open>handsfree_app_states\<close>, \<^verbatim>\<open>handsfree_esco_params\<close>,
  \<^verbatim>\<open>stream_id\<close>, \<^verbatim>\<open>audio_config\<close>); every handler is a function from the globals to the
  new globals and the list of calls it made into the stack, the transport and the audio
  manager, in program order. A handler that dereferences a null control block or runs
  past a buffer returns a \<open>fault\<close> instead. Trace output is left out, except in
  \<open>handsfree_call_setup_event_handler\<close>, whose branches do nothing else.
\<close>

type_synonym u8 = "8 word"
type_synonym u16 = "16 word"
type_synonym u32 = "32 word"

text \<open>Modelled from the spec: \<^verbatim>\<open>BD_ADDR_LEN\<close> is declared in a header outside \<^verbatim>\<open>src/\<close>; the
  specification gives the device identifier 6 bytes. A \<^verbatim>\<open>wiced_bt_device_address_t\<close> is
  an array of \<^verbatim>\<open>BD_ADDR_LEN\<close> bytes, here a list of that length.\<close>

definition BD_ADDR_LEN :: nat where
  "BD_ADDR_LEN = 6"

text \<open>\<^verbatim>\<open>#define HFP_VOLUME_HIGH 15\<close>\<close>

definition HFP_VOLUME_HIGH :: int where
  "HFP_VOLUME_HIGH = 15"

datatype fault = NULL_DEREF | WRITE_PAST_BUFFER | READ_PAST_BUFFER

type_synonym 'a result = "fault + 'a"

datatype conn_state_t =
    WICED_BT_HFP_HF_STATE_DISCONNECTED
  | WICED_BT_HFP_HF_STATE_CONNECTED
  | WICED_BT_HFP_HF_STATE_SLC_CONNECTED
  | WICED_BT_HFP_HF_STATE_OTHER

datatype inband_ring_t =
    WICED_BT_HFP_HF_INBAND_RING_DISABLED
  | WICED_BT_HFP_HF_INBAND_RING_ENABLED

datatype volume_type_t = WICED_BT_HFP_HF_SPEAKER | WICED_BT_HFP_HF_MIC

text \<open>Opcodes of the events sent to the host. \<open>HCI_CONTROL_HF_AT_EVENT e\<close> stands for
  \<^verbatim>\<open>HCI_CONTROL_HF_AT_EVENT_BASE + e\<close>.\<close>

datatype at_evt =
    HCI_CONTROL_HF_AT_EVENT_OK
  | HCI_CONTROL_HF_AT_EVENT_ERROR
  | HCI_CONTROL_HF_AT_EVENT_CMEE
  | HCI_CONTROL_HF_AT_EVENT_RING
  | HCI_CONTROL_HF_AT_EVENT_VGS
  | HCI_CONTROL_HF_AT_EVENT_VGM
  | HCI_CONTROL_HF_AT_EVENT_CIEV
  | HCI_CONTROL_HF_AT_EVENT_CLIP
  | HCI_CONTROL_HF_AT_EVENT_BINP
  | HCI_CONTROL_HF_AT_EVENT_CNUM
  | HCI_CONTROL_HF_AT_EVENT_CLCC
  | HCI_CONTROL_HF_AT_EVENT_BIND
  | HCI_CONTROL_HF_AT_EVENT_BCS

datatype hf_evt =
    HCI_CONTROL_HF_EVENT_OPEN
  | HCI_CONTROL_HF_EVENT_CLOSE
  | HCI_CONTROL_HF_EVENT_AUDIO_OPEN
  | HCI_CONTROL_HF_EVENT_AUDIO_CLOSE
  | HCI_CONTROL_HF_EVENT_CONNECTED
  | HCI_CONTROL_HF_EVENT_PROFILE_TYPE
  | HCI_CONTROL_HF_AT_EVENT at_evt

text \<open>
  Constants, macros and build options that the source uses and that are declared in
  headers outside \<^verbatim>\<open>src/\<close>. The model takes them as a parameter \<open>K\<close>.
  \<open>VAL_STR_SIZE\<close> is \<^verbatim>\<open>sizeof(p_val.val.str)\<close>; \<open>RES_IN_RANGE K e\<close> is the truth of
  \<^verbatim>\<open>res && res <= HCI_CONTROL_HF_AT_EVENT_BASE + HCI_CONTROL_HF_AT_EVENT_MAX\<close> for the
  opcode \<open>e\<close>; \<open>WBS_INCLUDED\<close> is \<^verbatim>\<open>WICED_BT_HFP_HF_WBS_INCLUDED == TRUE\<close>, \<open>HSP_ENABLED\<close> is
  \<^verbatim>\<open>WICED_ENABLE_BT_HSP_PROFILE\<close>, \<open>AUDIO_MANAGER\<close> is
  \<^verbatim>\<open>defined(CYW20721B2) || defined(CYW43012C0) || defined(CYW55572A1)\<close>; \<open>utl_itoa\<close> gives the
  characters that the library's \<^verbatim>\<open>utl_itoa\<close> writes.
\<close>

record hdr =
  BT_AUDIO_INVALID_SCO_INDEX :: u16
  VAL_STR_SIZE :: nat
  RES_IN_RANGE :: "hf_evt \<Rightarrow> bool"
  WBS_INCLUDED :: bool
  HSP_ENABLED :: bool
  AUDIO_MANAGER :: bool
  WICED_BT_HFP_PROFILE :: u8
  WICED_BT_HSP_PROFILE :: u8
  WICED_BT_SUCCESS :: u8
  HCI_SUCCESS :: u8
  WICED_BT_HFP_AG_FEATURE_INBAND_RING_TONE_CAPABILITY :: u32
  WICED_BT_HFP_AG_FEATURE_CODEC_NEGOTIATION :: u32
  WICED_BT_HFP_HF_FEATURE_CODEC_NEGOTIATION :: u32
  WICED_BT_HFP_HF_MSBC_CODEC :: u8
  WICED_BT_HFP_HF_CALLSETUP_STATE_IDLE :: u8
  WICED_BT_HFP_HF_CALLSETUP_STATE_INCOMING :: u8
  WICED_BT_HFP_HF_CALLSETUP_STATE_DIALING :: u8
  WICED_BT_HFP_HF_CALLSETUP_STATE_ALERTING :: u8
  WICED_BT_HFP_HF_SERVICE_IND :: u8
  WICED_BT_HFP_HF_CALL_IND :: u8
  WICED_BT_HFP_HF_CALL_HELD_IND :: u8
  WICED_BT_HFP_HF_CALL_SETUP_IND :: u8
  WICED_BT_HFP_HF_SIGNAL_IND :: u8
  WICED_BT_HFP_HF_ROAM_IND :: u8
  WICED_BT_HFP_HF_BATTERY_IND :: u8
  SCO_CONNECTION_WAIT_TIMEOUT :: u32
  AM_VOL_LEVEL_HIGH :: u32
  AM_PLAYBACK_SR_16K :: u32
  AM_PLAYBACK_SR_8K :: u32
  DEFAULT_BITSPSAM :: u32
  WICED_AUDIO_MANAGER_STREAM_ID_INVALID :: u32
  utl_itoa :: "u8 \<Rightarrow> u8 list"

text \<open>The globals. The first group is \<^verbatim>\<open>handsfree_ctxt_data\<close>, field by field;
  \<open>profile_selected\<close> is \<^verbatim>\<open>handsfree_app_states.connect.profile_selected\<close>, \<open>use_wbs\<close> is
  \<^verbatim>\<open>handsfree_esco_params.use_wbs\<close>, and the \<open>audio_\<close> fields are \<^verbatim>\<open>audio_config\<close>.\<close>

record globals =
  rfcomm_handle :: u16
  peer_bd_addr :: "u8 list"
  sco_index :: u16
  call_active :: u8
  call_held :: u8
  call_setup :: u8
  connection_status :: conn_state_t
  spkr_volume :: u8
  mic_volume :: u8
  init_sco_conn :: bool
  is_sco_connected :: bool
  inband_ring_status :: inband_ring_t
  profile_selected :: u8
  use_wbs :: bool
  stream_id :: u32
  audio_sr :: u32
  audio_channels :: u32
  audio_bits_per_sample :: u32
  audio_volume :: u32
  audio_mic_gain :: u32

text \<open>The service control block the profile library keeps per connection; the
  application reads these two fields.\<close>

record wiced_bt_hfp_hf_scb_t =
  scb_rfcomm_handle :: u16
  feature_mask :: u32

text \<open>
  What the stack answers during one handler run: the two control-block lookups
  (\<open>None\<close> is a null pointer), the index that a create-SCO call stores through its
  out-parameter (\<open>None\<close>: it stores nothing), the stream the audio manager opens, and
  whether the timer is running.
\<close>

record env =
  wiced_bt_hfp_hf_get_scb_by_bd_addr :: "u8 list \<Rightarrow> wiced_bt_hfp_hf_scb_t option"
  wiced_bt_hfp_hf_get_scb_by_handle :: "u16 \<Rightarrow> wiced_bt_hfp_hf_scb_t option"
  sco_index_out :: "u16 option"
  wiced_am_stream_open :: u32
  wiced_is_timer_in_use :: bool

datatype sco_params =
    handsfree_esco_params bool
  | headset_sco_params

datatype action =
    wiced_transport_send_data hf_evt "u8 list"
  | wiced_bt_sco_create_as_acceptor
  | wiced_bt_sco_remove u16
  | wiced_bt_sco_create_as_initiator "u8 list" sco_params
  | wiced_bt_sco_accept_connection u16 u8 sco_params
  | wiced_start_timer u32
  | wiced_stop_timer
  | wiced_am_stream_open_HFP
  | wiced_am_stream_set_param_AUDIO_CONFIG u32 u32 u32 u32 u32 u32
  | wiced_am_stream_set_param_SPEAKER_VOL u32 u32
  | wiced_am_stream_set_param_MIC_GAIN u32 u32
  | wiced_am_stream_start u32
  | wiced_am_stream_stop u32
  | wiced_am_stream_close u32

text \<open>The union \<^verbatim>\<open>hci_control_hf_event_t\<close>, one field per member that the program reads.
  Every reader reads the member its caller wrote, so the members are kept apart.\<close>

record hci_control_hf_event_t =
  open_bd_addr :: "u8 list"
  open_status :: u8
  conn_peer_features :: u32
  conn_profile_selected :: u8
  val_num :: u16
  val_str :: "u8 list"

definition zeroed_event :: "hdr \<Rightarrow> hci_control_hf_event_t" where
  "zeroed_event K =
     \<lparr>open_bd_addr = replicate BD_ADDR_LEN 0, open_status = 0, conn_peer_features = 0,
      conn_profile_selected = 0, val_num = 0, val_str = replicate (VAL_STR_SIZE K) 0\<rparr>"

section \<open>Sending an event to the host\<close>

definition UINT32_TO_STREAM :: "u32 \<Rightarrow> u8 list" where
  "UINT32_TO_STREAM v =
     [ucast v, ucast (drop_bit 8 v), ucast (drop_bit 16 v), ucast (drop_bit 24 v)]"

text \<open>The size of \<^verbatim>\<open>tx_buf\<close>.\<close>

definition TX_BUF_SIZE :: nat where
  "TX_BUF_SIZE = 300"

text \<open>\<^verbatim>\<open>strlen\<close> of a character array: the bytes before the first zero, when there is
  one inside the array.\<close>

definition c_strlen :: "u8 list \<Rightarrow> nat option" where
  "c_strlen buf = (if 0 \<in> set buf then Some (length (takeWhile (\<lambda>c. c \<noteq> 0) buf)) else None)"

definition hci_control_send_hf_event ::
    "hf_evt \<Rightarrow> u16 \<Rightarrow> hci_control_hf_event_t option \<Rightarrow> action result" where
  "hci_control_send_hf_event evt handle p_data =
     (let head = [ucast handle, ucast (drop_bit 8 handle)] :: u8 list in
      case evt of
        HCI_CONTROL_HF_EVENT_OPEN \<Rightarrow>
          (case p_data of
             None \<Rightarrow> Inl NULL_DEREF
           | Some d \<Rightarrow>
               Inr (wiced_transport_send_data evt (head @ rev (open_bd_addr d) @ [open_status d])))
      | HCI_CONTROL_HF_EVENT_CLOSE \<Rightarrow> Inr (wiced_transport_send_data evt head)
      | HCI_CONTROL_HF_EVENT_AUDIO_OPEN \<Rightarrow> Inr (wiced_transport_send_data evt head)
      | HCI_CONTROL_HF_EVENT_AUDIO_CLOSE \<Rightarrow> Inr (wiced_transport_send_data evt head)
      | HCI_CONTROL_HF_EVENT_CONNECTED \<Rightarrow>
          (case p_data of
             None \<Rightarrow> Inl NULL_DEREF
           | Some d \<Rightarrow>
               Inr (wiced_transport_send_data evt (head @ UINT32_TO_STREAM (conn_peer_features d))))
      | HCI_CONTROL_HF_EVENT_PROFILE_TYPE \<Rightarrow>
          (case p_data of
             None \<Rightarrow> Inl NULL_DEREF
           | Some d \<Rightarrow> Inr (wiced_transport_send_data evt (head @ [conn_profile_selected d])))
      | HCI_CONTROL_HF_AT_EVENT e \<Rightarrow>
          (case p_data of
             None \<Rightarrow> Inr (wiced_transport_send_data evt (head @ [0, 0, 0]))
           | Some d \<Rightarrow>
               (case c_strlen (val_str d) of
                  None \<Rightarrow> Inl READ_PAST_BUFFER
                | Some n \<Rightarrow>
                    if 2 + 2 + n + 1 \<le> TX_BUF_SIZE
                    then Inr (wiced_transport_send_data evt
                           (head @ [ucast (val_num d), ucast (drop_bit 8 (val_num d))]
                              @ take n (val_str d) @ [0]))
                    else Inl WRITE_PAST_BUFFER)))"

section \<open>Connection state events\<close>

record conn_data_t =
  conn_state :: conn_state_t
  remote_address :: "u8 list"
  connected_profile :: u8

definition store_sco_index :: "env \<Rightarrow> globals \<Rightarrow> globals" where
  "store_sco_index E g =
     (case sco_index_out E of None \<Rightarrow> g | Some i \<Rightarrow> g\<lparr>sco_index := i\<rparr>)"

definition handsfree_connection_event_handler ::
    "hdr \<Rightarrow> env \<Rightarrow> conn_data_t \<Rightarrow> globals \<Rightarrow> (globals \<times> action list) result" where
  "handsfree_connection_event_handler K E d g =
     (if conn_state d = WICED_BT_HFP_HF_STATE_CONNECTED then
        (case wiced_bt_hfp_hf_get_scb_by_bd_addr E (remote_address d) of
           None \<Rightarrow> Inl NULL_DEREF
         | Some p_scb \<Rightarrow>
             (let opn = (zeroed_event K)\<lparr>open_bd_addr := remote_address d,
                          open_status := WICED_BT_SUCCESS K\<rparr>;
                  g1 = g\<lparr>rfcomm_handle := scb_rfcomm_handle p_scb\<rparr>;
                  g2 = (if connected_profile d = WICED_BT_HFP_PROFILE K
                        then g1\<lparr>profile_selected := WICED_BT_HFP_PROFILE K\<rparr>
                        else g1\<lparr>profile_selected := WICED_BT_HSP_PROFILE K,
                                peer_bd_addr := remote_address d\<rparr>);
                  cn = (zeroed_event K)\<lparr>conn_profile_selected := profile_selected g2\<rparr>
              in case hci_control_send_hf_event HCI_CONTROL_HF_EVENT_OPEN
                        (scb_rfcomm_handle p_scb) (Some opn) of
                   Inl f \<Rightarrow> Inl f
                 | Inr a1 \<Rightarrow>
                     (case hci_control_send_hf_event HCI_CONTROL_HF_EVENT_PROFILE_TYPE
                             (scb_rfcomm_handle p_scb) (Some cn) of
                        Inl f \<Rightarrow> Inl f
                      | Inr a2 \<Rightarrow>
                          Inr (store_sco_index E g2, [a1, a2, wiced_bt_sco_create_as_acceptor]))))
      else if conn_state d = WICED_BT_HFP_HF_STATE_SLC_CONNECTED then
        Inr (g\<lparr>peer_bd_addr := remote_address d\<rparr>, [])
      else if conn_state d = WICED_BT_HFP_HF_STATE_DISCONNECTED then
        (let g1 = g\<lparr>peer_bd_addr := replicate BD_ADDR_LEN 0\<rparr>;
             rm = (if sco_index g1 \<noteq> BT_AUDIO_INVALID_SCO_INDEX K
                   then [wiced_bt_sco_remove (sco_index g1)] else []);
             g2 = (if sco_index g1 \<noteq> BT_AUDIO_INVALID_SCO_INDEX K
                   then g1\<lparr>sco_index := BT_AUDIO_INVALID_SCO_INDEX K\<rparr> else g1)
         in case hci_control_send_hf_event HCI_CONTROL_HF_EVENT_CLOSE (rfcomm_handle g2) None of
              Inl f \<Rightarrow> Inl f
            | Inr a \<Rightarrow> Inr (g2, rm @ [a]))
      else Inr (g, []))"

definition handsfree_init_context_data :: "hdr \<Rightarrow> globals \<Rightarrow> globals" where
  "handsfree_init_context_data K g =
     g\<lparr>call_active := 0,
       call_held := 0,
       call_setup := WICED_BT_HFP_HF_CALLSETUP_STATE_IDLE K,
       connection_status := WICED_BT_HFP_HF_STATE_DISCONNECTED,
       spkr_volume := 8,
       mic_volume := 8,
       sco_index := BT_AUDIO_INVALID_SCO_INDEX K,
       init_sco_conn := False\<rparr>"

section \<open>Call indicators\<close>

record call_data_t =
  active_call_present :: u8
  held_call_present :: u8
  setup_state :: u8

text \<open>The trace lines of \<^verbatim>\<open>handsfree_call_setup_event_handler\<close>, which tell its branches
  apart.\<close>

datatype call_trace =
    TRACE_Call_incoming_setting_up
  | TRACE_Call_Inactive_Call_Setup_IDLE
  | TRACE_Call_Terminated
  | TRACE_Call_Active_Call_setup_DONE
  | TRACE_Call_outgoing_setting_up
  | TRACE_Remote_outgoing_ringing

definition handsfree_call_setup_event_handler ::
    "hdr \<Rightarrow> call_data_t \<Rightarrow> globals \<Rightarrow> globals \<times> call_trace option" where
  "handsfree_call_setup_event_handler K call_data g =
     (let tr =
        (if setup_state call_data = WICED_BT_HFP_HF_CALLSETUP_STATE_INCOMING K then
           Some TRACE_Call_incoming_setting_up
         else if setup_state call_data = WICED_BT_HFP_HF_CALLSETUP_STATE_IDLE K then
           (if active_call_present call_data = 0 then
              (if call_setup g = WICED_BT_HFP_HF_CALLSETUP_STATE_INCOMING K \<or>
                  call_setup g = WICED_BT_HFP_HF_CALLSETUP_STATE_DIALING K \<or>
                  call_setup g = WICED_BT_HFP_HF_CALLSETUP_STATE_ALERTING K
               then Some TRACE_Call_Inactive_Call_Setup_IDLE
               else if call_active g = 1 then Some TRACE_Call_Terminated
               else None)
            else if active_call_present call_data = 1 then
              Some TRACE_Call_Active_Call_setup_DONE
            else None)
         else if setup_state call_data = WICED_BT_HFP_HF_CALLSETUP_STATE_DIALING K then
           Some TRACE_Call_outgoing_setting_up
         else if setup_state call_data = WICED_BT_HFP_HF_CALLSETUP_STATE_ALERTING K then
           Some TRACE_Remote_outgoing_ringing
         else None)
      in (g\<lparr>call_active := active_call_present call_data,
            call_setup := setup_state call_data,
            call_held := held_call_present call_data\<rparr>, tr))"

text \<open>Storing \<open>bytes\<close> into a character array from index \<open>i\<close> on; the array has the
  length of \<open>buf\<close>.\<close>

definition write_str :: "nat \<Rightarrow> u8 list \<Rightarrow> u8 list \<Rightarrow> u8 list result" where
  "write_str i bytes buf =
     (if i + length bytes \<le> length buf
      then Inr (take i buf @ bytes @ drop (i + length bytes) buf)
      else Inl WRITE_PAST_BUFFER)"

text \<open>A C string argument is given as the bytes at its address; the string is what
  comes before the first zero.\<close>

definition c_str :: "u8 list \<Rightarrow> u8 list" where
  "c_str s = takeWhile (\<lambda>c. c \<noteq> 0) s"

text \<open>\<^verbatim>\<open>strncpy(dst, src, n)\<close> with \<open>n\<close> the size of \<open>dst\<close>: at most \<open>n\<close> characters, padded
  with zeros, and no terminator when the string has \<open>n\<close> characters or more.\<close>

definition c_strncpy :: "nat \<Rightarrow> u8 list \<Rightarrow> u8 list" where
  "c_strncpy n src = take n (c_str src) @ replicate (n - length (c_str src)) 0"

definition handsfree_send_ciev_cmd ::
    "hdr \<Rightarrow> env \<Rightarrow> u16 \<Rightarrow> u8 \<Rightarrow> u8 \<Rightarrow> hci_control_hf_event_t
       \<Rightarrow> (hci_control_hf_event_t \<times> action) result" where
  "handsfree_send_ciev_cmd K E handle ind_id ind_val p_val =
     (case write_str 0 [48 + ind_id, 44, 48 + ind_val, 0] (val_str p_val) of
        Inl f \<Rightarrow> Inl f
      | Inr s \<Rightarrow>
          (case wiced_bt_hfp_hf_get_scb_by_handle E handle of
             None \<Rightarrow> Inl NULL_DEREF
           | Some p_scb \<Rightarrow>
               (case hci_control_send_hf_event (HCI_CONTROL_HF_AT_EVENT HCI_CONTROL_HF_AT_EVENT_CIEV)
                       (scb_rfcomm_handle p_scb) (Some (p_val\<lparr>val_str := s\<rparr>)) of
                  Inl f \<Rightarrow> Inl f
                | Inr a \<Rightarrow> Inr (p_val\<lparr>val_str := s\<rparr>, a))))"

record active_call_t =
  ac_idx :: u8
  ac_dir :: u8
  ac_status :: u8
  ac_mode :: u8
  ac_is_conference :: u8
  ac_num :: "u8 list"
  ac_type :: u8

definition handsfree_send_clcc_evt ::
    "hdr \<Rightarrow> env \<Rightarrow> u16 \<Rightarrow> active_call_t \<Rightarrow> hci_control_hf_event_t
       \<Rightarrow> (hci_control_hf_event_t \<times> action) result" where
  "handsfree_send_clcc_evt K E handle active_call p_val =
     (let txt = [48 + ac_idx active_call, 44, 48 + ac_dir active_call, 44,
                 48 + ac_status active_call, 44, 48 + ac_mode active_call, 44,
                 48 + ac_is_conference active_call]
                @ (if ac_type active_call \<noteq> 0
                   then [44] @ c_str (ac_num active_call) @ [44] @ utl_itoa K (ac_type active_call)
                   else [])
                @ [0]
      in case write_str 0 txt (val_str p_val) of
           Inl f \<Rightarrow> Inl f
         | Inr s \<Rightarrow>
             (case wiced_bt_hfp_hf_get_scb_by_handle E handle of
                None \<Rightarrow> Inl NULL_DEREF
              | Some p_scb \<Rightarrow>
                  (case hci_control_send_hf_event
                          (HCI_CONTROL_HF_AT_EVENT HCI_CONTROL_HF_AT_EVENT_CLCC)
                          (scb_rfcomm_handle p_scb) (Some (p_val\<lparr>val_str := s\<rparr>)) of
                     Inl f \<Rightarrow> Inl f
                   | Inr a \<Rightarrow> Inr (p_val\<lparr>val_str := s\<rparr>, a))))"

section \<open>The profile event callback\<close>

datatype hf_event =
    WICED_BT_HFP_HF_CONNECTION_STATE_EVT conn_data_t
  | WICED_BT_HFP_HF_AG_FEATURE_SUPPORT_EVT u32
  | WICED_BT_HFP_HF_SERVICE_STATE_EVT u8
  | WICED_BT_HFP_HF_CALL_SETUP_EVT call_data_t
  | WICED_BT_HFP_HF_RSSI_IND_EVT u8
  | WICED_BT_HFP_HF_SERVICE_TYPE_EVT u8
  | WICED_BT_HFP_HF_BATTERY_STATUS_IND_EVT u8
  | WICED_BT_HFP_HF_RING_EVT
  | WICED_BT_HFP_HF_INBAND_RING_STATE_EVT inband_ring_t
  | WICED_BT_HFP_HF_OK_EVT
  | WICED_BT_HFP_HF_ERROR_EVT
  | WICED_BT_HFP_HF_CME_ERROR_EVT u8
  | WICED_BT_HFP_HF_CLIP_IND_EVT u8 "u8 list"
  | WICED_BT_HFP_HF_BINP_EVT u8 "u8 list"
  | WICED_BT_HFP_HF_VOLUME_CHANGE_EVT volume_type_t u8
  | WICED_BT_HFP_HFP_CODEC_SET_EVT u8
  | WICED_BT_HFP_HFP_ACTIVE_CALL_EVT active_call_t
  | WICED_BT_HFP_HF_CNUM_EVT "u8 list"
  | WICED_BT_HFP_HF_BIND_EVT u8 u8
  | WICED_BT_HFP_HF_OTHER_EVT

text \<open>The end of the callback: \<open>res\<close> is \<open>None\<close> while it is 0.\<close>

definition send_res ::
    "hdr \<Rightarrow> env \<Rightarrow> u16 \<Rightarrow> hf_evt option \<Rightarrow> hci_control_hf_event_t \<Rightarrow> globals \<Rightarrow> action list
       \<Rightarrow> (globals \<times> action list) result" where
  "send_res K E handle res p_val g acts =
     (case res of
        None \<Rightarrow> Inr (g, acts)
      | Some e \<Rightarrow>
          if RES_IN_RANGE K e then
            (case wiced_bt_hfp_hf_get_scb_by_handle E handle of
               None \<Rightarrow> Inl NULL_DEREF
             | Some p_scb \<Rightarrow>
                 (case hci_control_send_hf_event e (scb_rfcomm_handle p_scb) (Some p_val) of
                    Inl f \<Rightarrow> Inl f
                  | Inr a \<Rightarrow> Inr (g, acts @ [a])))
          else Inr (g, acts))"

text \<open>An indicator is reported when the guard \<open>c\<close> of its \<^verbatim>\<open>if\<close> holds.\<close>

definition ciev_when ::
    "bool \<Rightarrow> hdr \<Rightarrow> env \<Rightarrow> u16 \<Rightarrow> u8 \<Rightarrow> u8 \<Rightarrow> hci_control_hf_event_t
       \<Rightarrow> (hci_control_hf_event_t \<times> action list) result" where
  "ciev_when c K E handle ind_id ind_val p_val =
     (if c then
        (case handsfree_send_ciev_cmd K E handle ind_id ind_val p_val of
           Inl f \<Rightarrow> Inl f
         | Inr (p, a) \<Rightarrow> Inr (p, [a]))
      else Inr (p_val, []))"

text \<open>The part of the codec-set branch that is compiled for the boards with the audio
  manager.\<close>

definition codec_set_audio :: "hdr \<Rightarrow> env \<Rightarrow> u8 \<Rightarrow> globals \<Rightarrow> globals \<times> action list" where
  "codec_set_audio K E selected_codec g =
     (let g1 = (if selected_codec = WICED_BT_HFP_HF_MSBC_CODEC K
                then g\<lparr>use_wbs := True, audio_sr := 16000\<rparr>
                else g\<lparr>use_wbs := False, audio_sr := 8000\<rparr>);
          g2 = g1\<lparr>audio_channels := 1, audio_bits_per_sample := DEFAULT_BITSPSAM K,
                  audio_volume := AM_VOL_LEVEL_HIGH K - 2\<rparr>;
          op = (if stream_id g2 = WICED_AUDIO_MANAGER_STREAM_ID_INVALID K
                then [wiced_am_stream_open_HFP] else []);
          g3 = (if stream_id g2 = WICED_AUDIO_MANAGER_STREAM_ID_INVALID K
                then g2\<lparr>stream_id := wiced_am_stream_open E\<rparr> else g2)
      in (g3, op @ [wiced_am_stream_set_param_AUDIO_CONFIG (stream_id g3) (audio_sr g3)
                      (audio_channels g3) (audio_bits_per_sample g3) (audio_volume g3)
                      (audio_mic_gain g3)]))"

definition handsfree_event_callback ::
    "hdr \<Rightarrow> env \<Rightarrow> u16 \<Rightarrow> hf_event \<Rightarrow> globals \<Rightarrow> (globals \<times> action list) result" where
  "handsfree_event_callback K E handle event g =
     (let p_val = zeroed_event K in
      case event of
        WICED_BT_HFP_HF_CONNECTION_STATE_EVT d \<Rightarrow> handsfree_connection_event_handler K E d g
      | WICED_BT_HFP_HF_AG_FEATURE_SUPPORT_EVT ag_feature_flags \<Rightarrow>
          (let p = p_val\<lparr>conn_peer_features := ag_feature_flags\<rparr>;
               g1 = (if ag_feature_flags AND WICED_BT_HFP_AG_FEATURE_INBAND_RING_TONE_CAPABILITY K \<noteq> 0
                     then g\<lparr>inband_ring_status := WICED_BT_HFP_HF_INBAND_RING_ENABLED\<rparr>
                     else g\<lparr>inband_ring_status := WICED_BT_HFP_HF_INBAND_RING_DISABLED\<rparr>)
           in if WBS_INCLUDED K then
                (if ag_feature_flags AND WICED_BT_HFP_AG_FEATURE_CODEC_NEGOTIATION K \<noteq> 0 then
                   (case wiced_bt_hfp_hf_get_scb_by_handle E handle of
                      None \<Rightarrow> Inl NULL_DEREF
                    | Some p_scb \<Rightarrow>
                        send_res K E handle (Some HCI_CONTROL_HF_EVENT_CONNECTED) p
                          (g1\<lparr>use_wbs :=
                                (feature_mask p_scb AND WICED_BT_HFP_HF_FEATURE_CODEC_NEGOTIATION K \<noteq> 0)\<rparr>)
                          [])
                 else send_res K E handle (Some HCI_CONTROL_HF_EVENT_CONNECTED) p
                        (g1\<lparr>use_wbs := False\<rparr>) [])
              else send_res K E handle (Some HCI_CONTROL_HF_EVENT_CONNECTED) p g1 [])
      | WICED_BT_HFP_HF_SERVICE_STATE_EVT service_state \<Rightarrow>
          (case ciev_when True K E handle (WICED_BT_HFP_HF_SERVICE_IND K) service_state p_val of
             Inl f \<Rightarrow> Inl f
           | Inr (p, a) \<Rightarrow> Inr (g, a))
      | WICED_BT_HFP_HF_CALL_SETUP_EVT call_data \<Rightarrow>
          (case ciev_when (call_active g \<noteq> active_call_present call_data) K E handle
                  (WICED_BT_HFP_HF_CALL_IND K) (active_call_present call_data) p_val of
             Inl f \<Rightarrow> Inl f
           | Inr (p1, a1) \<Rightarrow>
               (case ciev_when (call_held g \<noteq> held_call_present call_data) K E handle
                       (WICED_BT_HFP_HF_CALL_HELD_IND K) (held_call_present call_data) p1 of
                  Inl f \<Rightarrow> Inl f
                | Inr (p2, a2) \<Rightarrow>
                    (case ciev_when (call_setup g \<noteq> setup_state call_data) K E handle
                            (WICED_BT_HFP_HF_CALL_SETUP_IND K) (setup_state call_data) p2 of
                       Inl f \<Rightarrow> Inl f
                     | Inr (p3, a3) \<Rightarrow>
                         Inr (fst (handsfree_call_setup_event_handler K call_data g),
                              a1 @ a2 @ a3))))
      | WICED_BT_HFP_HF_RSSI_IND_EVT rssi \<Rightarrow>
          (case ciev_when True K E handle (WICED_BT_HFP_HF_SIGNAL_IND K) rssi p_val of
             Inl f \<Rightarrow> Inl f
           | Inr (p, a) \<Rightarrow> Inr (g, a))
      | WICED_BT_HFP_HF_SERVICE_TYPE_EVT service_type \<Rightarrow>
          (case ciev_when True K E handle (WICED_BT_HFP_HF_ROAM_IND K) service_type p_val of
             Inl f \<Rightarrow> Inl f
           | Inr (p, a) \<Rightarrow> Inr (g, a))
      | WICED_BT_HFP_HF_BATTERY_STATUS_IND_EVT battery_level \<Rightarrow>
          (case ciev_when True K E handle (WICED_BT_HFP_HF_BATTERY_IND K) battery_level p_val of
             Inl f \<Rightarrow> Inl f
           | Inr (p, a) \<Rightarrow> Inr (g, a))
      | WICED_BT_HFP_HF_RING_EVT \<Rightarrow>
          send_res K E handle (Some (HCI_CONTROL_HF_AT_EVENT HCI_CONTROL_HF_AT_EVENT_RING)) p_val g []
      | WICED_BT_HFP_HF_INBAND_RING_STATE_EVT inband_ring \<Rightarrow>
          Inr (g\<lparr>inband_ring_status := inband_ring\<rparr>, [])
      | WICED_BT_HFP_HF_OK_EVT \<Rightarrow>
          send_res K E handle (Some (HCI_CONTROL_HF_AT_EVENT HCI_CONTROL_HF_AT_EVENT_OK)) p_val g []
      | WICED_BT_HFP_HF_ERROR_EVT \<Rightarrow>
          send_res K E handle (Some (HCI_CONTROL_HF_AT_EVENT HCI_CONTROL_HF_AT_EVENT_ERROR)) p_val g []
      | WICED_BT_HFP_HF_CME_ERROR_EVT error_code \<Rightarrow>
          send_res K E handle (Some (HCI_CONTROL_HF_AT_EVENT HCI_CONTROL_HF_AT_EVENT_CMEE))
            (p_val\<lparr>val_num := ucast error_code\<rparr>) g []
      | WICED_BT_HFP_HF_CLIP_IND_EVT type caller_num \<Rightarrow>
          send_res K E handle (Some (HCI_CONTROL_HF_AT_EVENT HCI_CONTROL_HF_AT_EVENT_CLIP))
            (p_val\<lparr>val_num := ucast type,
                   val_str := c_strncpy (VAL_STR_SIZE K) caller_num\<rparr>) g []
      | WICED_BT_HFP_HF_BINP_EVT type caller_num \<Rightarrow>
          send_res K E handle (Some (HCI_CONTROL_HF_AT_EVENT HCI_CONTROL_HF_AT_EVENT_BINP))
            (p_val\<lparr>val_num := ucast type,
                   val_str := c_strncpy (VAL_STR_SIZE K) caller_num\<rparr>) g []
      | WICED_BT_HFP_HF_VOLUME_CHANGE_EVT type level \<Rightarrow>
          send_res K E handle
            (Some (HCI_CONTROL_HF_AT_EVENT
               (if type = WICED_BT_HFP_HF_MIC then HCI_CONTROL_HF_AT_EVENT_VGM
                else HCI_CONTROL_HF_AT_EVENT_VGS)))
            (p_val\<lparr>val_num := ucast level\<rparr>) g []
      | WICED_BT_HFP_HFP_CODEC_SET_EVT selected_codec \<Rightarrow>
          (let g1 = g\<lparr>use_wbs := (selected_codec = WICED_BT_HFP_HF_MSBC_CODEC K)\<rparr>;
               p = p_val\<lparr>val_num := ucast selected_codec\<rparr>;
               tm = (if init_sco_conn g1 then [wiced_start_timer (SCO_CONNECTION_WAIT_TIMEOUT K)]
                     else []);
               g2 = (if init_sco_conn g1 then g1\<lparr>init_sco_conn := False\<rparr> else g1);
               au = (if AUDIO_MANAGER K then codec_set_audio K E selected_codec g2 else (g2, []))
           in send_res K E handle (Some (HCI_CONTROL_HF_AT_EVENT HCI_CONTROL_HF_AT_EVENT_BCS)) p
                (fst au) (tm @ snd au))
      | WICED_BT_HFP_HFP_ACTIVE_CALL_EVT active_call \<Rightarrow>
          (case handsfree_send_clcc_evt K E handle active_call p_val of
             Inl f \<Rightarrow> Inl f
           | Inr (p, a) \<Rightarrow> Inr (g, [a]))
      | WICED_BT_HFP_HF_CNUM_EVT cnum_data \<Rightarrow>
          (case write_str 0 (c_str cnum_data) (val_str p_val) of
             Inl f \<Rightarrow> Inl f
           | Inr s \<Rightarrow>
               send_res K E handle (Some (HCI_CONTROL_HF_AT_EVENT HCI_CONTROL_HF_AT_EVENT_CNUM))
                 (p_val\<lparr>val_str := s\<rparr>) g [])
      | WICED_BT_HFP_HF_BIND_EVT ind_id ind_value \<Rightarrow>
          (case write_str 0 [ind_id + 48, 44, ind_value + 48] (val_str p_val) of
             Inl f \<Rightarrow> Inl f
           | Inr s \<Rightarrow>
               send_res K E handle (Some (HCI_CONTROL_HF_AT_EVENT HCI_CONTROL_HF_AT_EVENT_BIND))
                 (p_val\<lparr>val_str := s\<rparr>) g [])
      | WICED_BT_HFP_HF_OTHER_EVT \<Rightarrow> Inr (g, []))"

section \<open>Volume scaling\<close>

text \<open>
  \<^verbatim>\<open>int32_t\<close> arithmetic on 32-bit words: the product wraps, \<^verbatim>\<open>/\<close> and \<^verbatim>\<open>%\<close> truncate
  towards zero on the signed values, the remainder is stored in a \<^verbatim>\<open>uint32_t\<close> and
  compared unsigned.
\<close>

definition handsfree_utils_hfp_volume_to_am_volume :: "hdr \<Rightarrow> u32 \<Rightarrow> u32" where
  "handsfree_utils_hfp_volume_to_am_volume K vol =
     (let am_level = (word_of_int (sint (vol * AM_VOL_LEVEL_HIGH K) sdiv HFP_VOLUME_HIGH) :: u32);
          remainder = (word_of_int (sint (vol * AM_VOL_LEVEL_HIGH K) smod HFP_VOLUME_HIGH) :: u32)
      in if remainder \<ge> AM_VOL_LEVEL_HIGH K then am_level + 1 else am_level)"

section \<open>Voice channel events\<close>

datatype sco_event =
    BTM_SCO_CONNECTED_EVT
  | BTM_SCO_DISCONNECTED_EVT
  | BTM_SCO_CONNECTION_REQUEST_EVT u16
  | BTM_SCO_CONNECTION_CHANGE_EVT

text \<open>The audio set-up of the connected branch, compiled for the boards with the audio
  manager.\<close>

definition sco_connected_audio :: "hdr \<Rightarrow> env \<Rightarrow> globals \<Rightarrow> globals \<times> action list" where
  "sco_connected_audio K E g =
     (let op = (if stream_id g = WICED_AUDIO_MANAGER_STREAM_ID_INVALID K
                then [wiced_am_stream_open_HFP] else []);
          g1 = (if stream_id g = WICED_AUDIO_MANAGER_STREAM_ID_INVALID K
                then g\<lparr>stream_id := wiced_am_stream_open E\<rparr> else g);
          g2 = (if use_wbs g1 then g1\<lparr>audio_sr := AM_PLAYBACK_SR_16K K\<rparr>
                else g1\<lparr>audio_sr := AM_PLAYBACK_SR_8K K\<rparr>);
          g3 = g2\<lparr>audio_volume :=
                    handsfree_utils_hfp_volume_to_am_volume K (AM_VOL_LEVEL_HIGH K - 2),
                  audio_mic_gain :=
                    handsfree_utils_hfp_volume_to_am_volume K (AM_VOL_LEVEL_HIGH K - 2)\<rparr>
      in (g3, op @ [wiced_am_stream_set_param_AUDIO_CONFIG (stream_id g3) (audio_sr g3)
                      (audio_channels g3) (audio_bits_per_sample g3) (audio_volume g3)
                      (audio_mic_gain g3),
                    wiced_am_stream_start (stream_id g3),
                    wiced_am_stream_set_param_SPEAKER_VOL (stream_id g3) (audio_volume g3),
                    wiced_am_stream_set_param_MIC_GAIN (stream_id g3) (audio_mic_gain g3)]))"

definition hf_sco_management_callback ::
    "hdr \<Rightarrow> env \<Rightarrow> sco_event \<Rightarrow> globals \<Rightarrow> (globals \<times> action list) result" where
  "hf_sco_management_callback K E event g =
     (let p_scb = wiced_bt_hfp_hf_get_scb_by_bd_addr E (peer_bd_addr g) in
      case event of
        BTM_SCO_CONNECTED_EVT \<Rightarrow>
          (let au = (if AUDIO_MANAGER K then sco_connected_audio K E g else (g, [])) in
           case p_scb of
             None \<Rightarrow> Inl NULL_DEREF
           | Some scb \<Rightarrow>
               (case hci_control_send_hf_event HCI_CONTROL_HF_EVENT_AUDIO_OPEN
                       (scb_rfcomm_handle scb) None of
                  Inl f \<Rightarrow> Inl f
                | Inr a \<Rightarrow> Inr ((fst au)\<lparr>is_sco_connected := True\<rparr>, snd au @ [a])))
      | BTM_SCO_DISCONNECTED_EVT \<Rightarrow>
          (case p_scb of
             None \<Rightarrow> Inl NULL_DEREF
           | Some scb \<Rightarrow>
               (case hci_control_send_hf_event HCI_CONTROL_HF_EVENT_AUDIO_CLOSE
                       (scb_rfcomm_handle scb) None of
                  Inl f \<Rightarrow> Inl f
                | Inr a \<Rightarrow>
                    Inr ((store_sco_index E g)\<lparr>is_sco_connected := False\<rparr>,
                         [a, wiced_bt_sco_create_as_acceptor])))
      | BTM_SCO_CONNECTION_REQUEST_EVT req_index \<Rightarrow>
          (let st = (if wiced_is_timer_in_use E then [wiced_stop_timer] else []);
               ac = (if profile_selected g = WICED_BT_HFP_PROFILE K
                     then [wiced_bt_sco_accept_connection req_index (HCI_SUCCESS K)
                             (handsfree_esco_params (use_wbs g))]
                     else if HSP_ENABLED K
                     then [wiced_bt_sco_accept_connection req_index (HCI_SUCCESS K)
                             headset_sco_params]
                     else [])
           in Inr (g, st @ ac))
      | BTM_SCO_CONNECTION_CHANGE_EVT \<Rightarrow> Inr (g, []))"

text \<open>The voice channel branches of \<^verbatim>\<open>handsfree_management_callback\<close>.\<close>

definition handsfree_management_callback ::
    "hdr \<Rightarrow> env \<Rightarrow> sco_event \<Rightarrow> globals \<Rightarrow> (globals \<times> action list) result" where
  "handsfree_management_callback K E event g =
     (case event of
        BTM_SCO_DISCONNECTED_EVT \<Rightarrow>
          (let cl = (if AUDIO_MANAGER K \<and> stream_id g \<noteq> WICED_AUDIO_MANAGER_STREAM_ID_INVALID K
                     then [wiced_am_stream_stop (stream_id g), wiced_am_stream_close (stream_id g)]
                     else []);
               g1 = (if AUDIO_MANAGER K \<and> stream_id g \<noteq> WICED_AUDIO_MANAGER_STREAM_ID_INVALID K
                     then g\<lparr>stream_id := WICED_AUDIO_MANAGER_STREAM_ID_INVALID K\<rparr> else g)
           in case hf_sco_management_callback K E event g1 of
                Inl f \<Rightarrow> Inl f
              | Inr (g2, acts) \<Rightarrow> Inr (g2, cl @ acts))
      | _ \<Rightarrow> hf_sco_management_callback K E event g)"

section \<open>The timer that guards the voice channel\<close>

definition hfp_timer_expiry_handler :: "hdr \<Rightarrow> env \<Rightarrow> globals \<Rightarrow> globals \<times> action list" where
  "hfp_timer_expiry_handler K E g =
     (if call_active g \<noteq> 0 \<and> \<not> is_sco_connected g then
        (store_sco_index E g,
         [wiced_bt_sco_remove (sco_index g),
          wiced_bt_sco_create_as_initiator (peer_bd_addr g) (handsfree_esco_params (use_wbs g))])
      else (g, []))"

section \<open>Delivery of notifications\<close>

text \<open>Notifications are processed one at a time, in arrival order; each comes with what
  the stack answers while it is processed.\<close>

datatype notification =
    HF_EVENT u16 hf_event
  | MANAGEMENT_EVENT sco_event
  | TIMER_EXPIRY

definition deliver1 ::
    "hdr \<Rightarrow> env \<Rightarrow> notification \<Rightarrow> globals \<Rightarrow> (globals \<times> action list) result" where
  "deliver1 K E n g =
     (case n of
        HF_EVENT handle event \<Rightarrow> handsfree_event_callback K E handle event g
      | MANAGEMENT_EVENT event \<Rightarrow> handsfree_management_callback K E event g
      | TIMER_EXPIRY \<Rightarrow> Inr (hfp_timer_expiry_handler K E g))"

text \<open>The result of a run is the final globals and, per notification, the calls made
  while it was processed.\<close>

fun deliver ::
    "hdr \<Rightarrow> (env \<times> notification) list \<Rightarrow> globals \<Rightarrow> (globals \<times> action list list) result" where
  "deliver K [] g = Inr (g, [])"
| "deliver K ((E, n) # ns) g =
     (case deliver1 K E n g of
        Inl f \<Rightarrow> Inl f
      | Inr (g1, acts) \<Rightarrow>
          (case deliver K ns g1 of
             Inl f \<Rightarrow> Inl f
           | Inr (g2, rest) \<Rightarrow> Inr (g2, acts # rest)))"

section \<open>Reading results, and sample inputs\<close>

definition globals_of :: "(globals \<times> 'a) result \<Rightarrow> globals option" where
  "globals_of r = (case r of Inl f \<Rightarrow> None | Inr x \<Rightarrow> Some (fst x))"

definition actions_of :: "(globals \<times> 'a) result \<Rightarrow> 'a option" where
  "actions_of r = (case r of Inl f \<Rightarrow> None | Inr x \<Rightarrow> Some (snd x))"

text \<open>The indicator event as the interface describes it: the handle, a two-byte number
  (zero here) and the text \<^verbatim>\<open>"<indicator_id>,<value>"\<close> in ASCII digits, ended by a zero.\<close>

definition indicator_change_event :: "u16 \<Rightarrow> u8 \<Rightarrow> u8 \<Rightarrow> action" where
  "indicator_change_event handle ind_id ind_val =
     wiced_transport_send_data (HCI_CONTROL_HF_AT_EVENT HCI_CONTROL_HF_AT_EVENT_CIEV)
       ([ucast handle, ucast (drop_bit 8 handle), 0, 0] @ c_str [48 + ind_id, 44, 48 + ind_val] @ [0])"

text \<open>A set of header values for the examples: a build with wide-band speech and the
  headset profile, without the audio manager, and a 32-byte text field.\<close>

definition sample_hdr :: hdr where
  "sample_hdr =
     \<lparr>BT_AUDIO_INVALID_SCO_INDEX = 0xFFFF,
      VAL_STR_SIZE = 32,
      RES_IN_RANGE = (\<lambda>e. True),
      WBS_INCLUDED = True,
      HSP_ENABLED = True,
      AUDIO_MANAGER = False,
      WICED_BT_HFP_PROFILE = 0,
      WICED_BT_HSP_PROFILE = 1,
      WICED_BT_SUCCESS = 0,
      HCI_SUCCESS = 0,
      WICED_BT_HFP_AG_FEATURE_INBAND_RING_TONE_CAPABILITY = 0x08,
      WICED_BT_HFP_AG_FEATURE_CODEC_NEGOTIATION = 0x200,
      WICED_BT_HFP_HF_FEATURE_CODEC_NEGOTIATION = 0x80,
      WICED_BT_HFP_HF_MSBC_CODEC = 2,
      WICED_BT_HFP_HF_CALLSETUP_STATE_IDLE = 0,
      WICED_BT_HFP_HF_CALLSETUP_STATE_INCOMING = 1,
      WICED_BT_HFP_HF_CALLSETUP_STATE_DIALING = 2,
      WICED_BT_HFP_HF_CALLSETUP_STATE_ALERTING = 3,
      WICED_BT_HFP_HF_SERVICE_IND = 1,
      WICED_BT_HFP_HF_CALL_IND = 2,
      WICED_BT_HFP_HF_CALL_HELD_IND = 4,
      WICED_BT_HFP_HF_CALL_SETUP_IND = 3,
      WICED_BT_HFP_HF_SIGNAL_IND = 5,
      WICED_BT_HFP_HF_ROAM_IND = 6,
      WICED_BT_HFP_HF_BATTERY_IND = 7,
      SCO_CONNECTION_WAIT_TIMEOUT = 2000,
      AM_VOL_LEVEL_HIGH = 16,
      AM_PLAYBACK_SR_16K = 16000,
      AM_PLAYBACK_SR_8K = 8000,
      DEFAULT_BITSPSAM = 16,
      WICED_AUDIO_MANAGER_STREAM_ID_INVALID = 0xFFFFFFFF,
      utl_itoa = (\<lambda>n. [])\<rparr>"

definition sample_scb :: wiced_bt_hfp_hf_scb_t where
  "sample_scb = \<lparr>scb_rfcomm_handle = 1, feature_mask = 0x80\<rparr>"

definition sample_env :: env where
  "sample_env =
     \<lparr>wiced_bt_hfp_hf_get_scb_by_bd_addr = (\<lambda>a. Some sample_scb),
      wiced_bt_hfp_hf_get_scb_by_handle = (\<lambda>h. Some sample_scb),
      sco_index_out = Some 1,
      wiced_am_stream_open = 1,
      wiced_is_timer_in_use = False\<rparr>"

text \<open>The globals after \<open>handsfree_init_context_data\<close>, with no link.\<close>

definition idle_globals :: globals where
  "idle_globals =
     \<lparr>rfcomm_handle = 0, peer_bd_addr = [0, 0, 0, 0, 0, 0], sco_index = 0xFFFF,
      call_active = 0, call_held = 0, call_setup = 0,
      connection_status = WICED_BT_HFP_HF_STATE_DISCONNECTED,
      spkr_volume = 8, mic_volume = 8, init_sco_conn = False, is_sco_connected = False,
      inband_ring_status = WICED_BT_HFP_HF_INBAND_RING_DISABLED,
      profile_selected = 0, use_wbs = True, stream_id = 0xFFFFFFFF, audio_sr = 16000,
      audio_channels = 1, audio_bits_per_sample = 16, audio_volume = 14, audio_mic_gain = 14\<rparr>"

text \<open>A link to the device 01:02:03:04:05:06 with an active call and a voice channel
  requested, not connected.\<close>

definition in_call_globals :: globals where
  "in_call_globals =
     idle_globals\<lparr>rfcomm_handle := 1, peer_bd_addr := [1, 2, 3, 4, 5, 6], sco_index := 1,
                  call_active := 1\<rparr>"

definition sample_connected :: conn_data_t where
  "sample_connected =
     \<lparr>conn_state = WICED_BT_HFP_HF_STATE_CONNECTED, remote_address = [1, 2, 3, 4, 5, 6],
      connected_profile = 0\<rparr>"

text \<open>The gateway reports that the call has been answered.\<close>

definition sample_call_answered :: call_data_t where
  "sample_call_answered = \<lparr>active_call_present = 1, held_call_present = 0, setup_state = 0\<rparr>"

definition sample_disconnected :: conn_data_t where
  "sample_disconnected =
     \<lparr>conn_state = WICED_BT_HFP_HF_STATE_DISCONNECTED, remote_address = [1, 2, 3, 4, 5, 6],
      connected_profile = 0\<rparr>"

section \<open>Signalling disconnect\<close>

lemma zero_address: "replicate BD_ADDR_LEN (0::u8) = [0, 0, 0, 0, 0, 0]"
  by (simp add: BD_ADDR_LEN_def numeral_eq_Suc)

text \<open>
  C1 (as stated in the specification): when the signalling connection goes to disconnected,
  the handler removes the voice channel if there is one, clears the remote address, resets
  the link context and the audio path state to their defaults, and sends one Link-closed
  event. The link context is at its defaults when \<open>handsfree_init_context_data\<close> leaves it
  as it is. In the run below a call is active and the voice channel is connected when the
  disconnect arrives; afterwards \<open>call_active\<close> is still 1 and \<open>is_sco_connected\<close> still true.
\<close>

theorem disconnect_keeps_call_state:
  "map_option call_active (globals_of (handsfree_connection_event_handler sample_hdr sample_env
       sample_disconnected (in_call_globals\<lparr>is_sco_connected := True\<rparr>))) = Some 1
   \<and> map_option is_sco_connected (globals_of (handsfree_connection_event_handler sample_hdr
       sample_env sample_disconnected (in_call_globals\<lparr>is_sco_connected := True\<rparr>))) = Some True
   \<and> map_option (handsfree_init_context_data sample_hdr)
        (globals_of (handsfree_connection_event_handler sample_hdr sample_env
           sample_disconnected (in_call_globals\<lparr>is_sco_connected := True\<rparr>)))
      \<noteq> globals_of (handsfree_connection_event_handler sample_hdr sample_env
           sample_disconnected (in_call_globals\<lparr>is_sco_connected := True\<rparr>))"
  by (simp add: handsfree_connection_event_handler_def hci_control_send_hf_event_def Let_def
      globals_of_def sample_disconnected_def in_call_globals_def idle_globals_def sample_hdr_def
      handsfree_init_context_data_def)

text \<open>
  C1 (amended): when the signalling connection goes to disconnected, the handler removes the
  voice channel if its index is not the invalid index, sets the index to the invalid
  index, sets the remote address to six zero bytes and sends exactly one Link-closed
  event carrying the handle; every other field of the globals stays as it was.
\<close>

theorem disconnect_removes_channel_and_clears_address:
  "conn_state d = WICED_BT_HFP_HF_STATE_DISCONNECTED \<Longrightarrow>
   handsfree_connection_event_handler K E d g =
     Inr (g\<lparr>peer_bd_addr := replicate BD_ADDR_LEN 0, sco_index := BT_AUDIO_INVALID_SCO_INDEX K\<rparr>,
          (if sco_index g \<noteq> BT_AUDIO_INVALID_SCO_INDEX K
           then [wiced_bt_sco_remove (sco_index g)] else [])
          @ [wiced_transport_send_data HCI_CONTROL_HF_EVENT_CLOSE
               [ucast (rfcomm_handle g), ucast (drop_bit 8 (rfcomm_handle g))]])"
  by (simp add: handsfree_connection_event_handler_def hci_control_send_hf_event_def Let_def)

theorem disconnect_removes_channel_and_clears_address_witness:
  "handsfree_connection_event_handler sample_hdr sample_env sample_disconnected in_call_globals =
     Inr (in_call_globals\<lparr>peer_bd_addr := [0, 0, 0, 0, 0, 0], sco_index := 0xFFFF\<rparr>,
          [wiced_bt_sco_remove 1, wiced_transport_send_data HCI_CONTROL_HF_EVENT_CLOSE [1, 0]])"
  using disconnect_removes_channel_and_clears_address
          [of sample_disconnected sample_hdr sample_env in_call_globals]
  by (simp add: sample_disconnected_def sample_hdr_def in_call_globals_def idle_globals_def
      zero_address)

section \<open>Signalling connect\<close>

lemma connected_actions:
  assumes "conn_state d = WICED_BT_HFP_HF_STATE_CONNECTED"
    and "wiced_bt_hfp_hf_get_scb_by_bd_addr E (remote_address d) = Some scb"
  shows "\<exists>g' a1 a2. handsfree_connection_event_handler K E d g =
            Inr (g', [wiced_transport_send_data HCI_CONTROL_HF_EVENT_OPEN a1,
                      wiced_transport_send_data HCI_CONTROL_HF_EVENT_PROFILE_TYPE a2,
                      wiced_bt_sco_create_as_acceptor])"
  using assms
  by (simp add: handsfree_connection_event_handler_def hci_control_send_hf_event_def Let_def)

text \<open>
  C2 (as stated in the specification): a signalling-connected notification in the closed
  state causes exactly one create-as-acceptor request, and a second consecutive one for the
  same link causes none. In the run below the same notification is delivered twice with
  no disconnect in between, and the second delivery requests the channel as acceptor
  again.
\<close>

theorem second_connected_requests_acceptor_again:
  "actions_of (deliver sample_hdr
       [(sample_env, HF_EVENT 1 (WICED_BT_HFP_HF_CONNECTION_STATE_EVT sample_connected)),
        (sample_env, HF_EVENT 1 (WICED_BT_HFP_HF_CONNECTION_STATE_EVT sample_connected))]
       idle_globals)
   = Some [[wiced_transport_send_data HCI_CONTROL_HF_EVENT_OPEN [1, 0, 6, 5, 4, 3, 2, 1, 0],
            wiced_transport_send_data HCI_CONTROL_HF_EVENT_PROFILE_TYPE [1, 0, 0],
            wiced_bt_sco_create_as_acceptor],
           [wiced_transport_send_data HCI_CONTROL_HF_EVENT_OPEN [1, 0, 6, 5, 4, 3, 2, 1, 0],
            wiced_transport_send_data HCI_CONTROL_HF_EVENT_PROFILE_TYPE [1, 0, 0],
            wiced_bt_sco_create_as_acceptor]]"
  by (simp add: deliver1_def handsfree_event_callback_def handsfree_connection_event_handler_def
      hci_control_send_hf_event_def Let_def sample_env_def sample_connected_def sample_scb_def
      sample_hdr_def actions_of_def zeroed_event_def store_sco_index_def idle_globals_def)

text \<open>
  C2 (amended): every signalling-connected notification whose control block is found causes
  exactly one create-as-acceptor request, whatever the state of the link; so two
  consecutive notifications for the same link cause one request each.
\<close>

theorem each_connected_requests_acceptor_once:
  assumes "conn_state d = WICED_BT_HFP_HF_STATE_CONNECTED"
    and "wiced_bt_hfp_hf_get_scb_by_bd_addr E1 (remote_address d) = Some scb1"
    and "wiced_bt_hfp_hf_get_scb_by_bd_addr E2 (remote_address d) = Some scb2"
  shows "\<exists>g2 acts1 acts2.
           deliver K [(E1, HF_EVENT handle (WICED_BT_HFP_HF_CONNECTION_STATE_EVT d)),
                      (E2, HF_EVENT handle (WICED_BT_HFP_HF_CONNECTION_STATE_EVT d))] g
             = Inr (g2, [acts1, acts2])
           \<and> count_list acts1 wiced_bt_sco_create_as_acceptor = 1
           \<and> count_list acts2 wiced_bt_sco_create_as_acceptor = 1"
proof -
  obtain g1 a1 b1 where h1: "handsfree_connection_event_handler K E1 d g =
            Inr (g1, [wiced_transport_send_data HCI_CONTROL_HF_EVENT_OPEN a1,
                      wiced_transport_send_data HCI_CONTROL_HF_EVENT_PROFILE_TYPE b1,
                      wiced_bt_sco_create_as_acceptor])"
    using connected_actions[OF assms(1,2)] by blast
  obtain g2 a2 b2 where h2: "handsfree_connection_event_handler K E2 d g1 =
            Inr (g2, [wiced_transport_send_data HCI_CONTROL_HF_EVENT_OPEN a2,
                      wiced_transport_send_data HCI_CONTROL_HF_EVENT_PROFILE_TYPE b2,
                      wiced_bt_sco_create_as_acceptor])"
    using connected_actions[OF assms(1,3)] by blast
  show ?thesis
    by (simp add: deliver1_def handsfree_event_callback_def h1 h2)
qed

theorem each_connected_requests_acceptor_once_witness:
  "\<exists>g2 acts1 acts2.
     deliver sample_hdr
       [(sample_env, HF_EVENT 1 (WICED_BT_HFP_HF_CONNECTION_STATE_EVT sample_connected)),
        (sample_env, HF_EVENT 1 (WICED_BT_HFP_HF_CONNECTION_STATE_EVT sample_connected))]
       idle_globals = Inr (g2, [acts1, acts2])
     \<and> count_list acts1 wiced_bt_sco_create_as_acceptor = 1
     \<and> count_list acts2 wiced_bt_sco_create_as_acceptor = 1"
  using each_connected_requests_acceptor_once
          [of sample_connected sample_env sample_scb sample_env sample_scb sample_hdr 1 idle_globals]
  by (simp add: sample_connected_def sample_env_def)

section \<open>Expiry of the timer\<close>

text \<open>
  C7: when the timer fires with a call active and the voice channel not connected, the
  handler removes the current voice channel and then requests it as initiator (nothing but
  the stored channel index changes); when the channel is connected or no call is active,
  the handler makes no call and changes no state.
\<close>

theorem timer_expiry_behaviour:
  "(call_active g \<noteq> 0 \<and> \<not> is_sco_connected g \<longrightarrow>
      snd (hfp_timer_expiry_handler K E g) =
        [wiced_bt_sco_remove (sco_index g),
         wiced_bt_sco_create_as_initiator (peer_bd_addr g) (handsfree_esco_params (use_wbs g))]
      \<and> (fst (hfp_timer_expiry_handler K E g))\<lparr>sco_index := sco_index g\<rparr> = g)
   \<and> (is_sco_connected g \<or> call_active g = 0 \<longrightarrow> hfp_timer_expiry_handler K E g = (g, []))"
  by (simp add: hfp_timer_expiry_handler_def store_sco_index_def split: option.split)

theorem timer_expiry_behaviour_witness:
  "snd (hfp_timer_expiry_handler sample_hdr sample_env in_call_globals) =
     [wiced_bt_sco_remove 1,
      wiced_bt_sco_create_as_initiator [1, 2, 3, 4, 5, 6] (handsfree_esco_params True)]
   \<and> hfp_timer_expiry_handler sample_hdr sample_env (in_call_globals\<lparr>is_sco_connected := True\<rparr>)
       = (in_call_globals\<lparr>is_sco_connected := True\<rparr>, [])
   \<and> hfp_timer_expiry_handler sample_hdr sample_env idle_globals = (idle_globals, [])"
  using timer_expiry_behaviour [of in_call_globals sample_hdr sample_env]
    timer_expiry_behaviour [of "in_call_globals\<lparr>is_sco_connected := True\<rparr>" sample_hdr sample_env]
    timer_expiry_behaviour [of idle_globals sample_hdr sample_env]
  by (simp add: in_call_globals_def idle_globals_def)

text \<open>
  C3 (as stated in the specification): with a call active and the voice channel never
  connected, the timer expiry produces one remove followed by create-as-initiator, and a
  second run of the expiry handler after that makes no further request. In the run below
  the handler runs twice and makes the two requests both times.
\<close>

theorem second_expiry_repeats_requests:
  "actions_of (deliver sample_hdr [(sample_env, TIMER_EXPIRY), (sample_env, TIMER_EXPIRY)]
       in_call_globals)
   = Some [[wiced_bt_sco_remove 1,
            wiced_bt_sco_create_as_initiator [1, 2, 3, 4, 5, 6] (handsfree_esco_params True)],
           [wiced_bt_sco_remove 1,
            wiced_bt_sco_create_as_initiator [1, 2, 3, 4, 5, 6] (handsfree_esco_params True)]]"
  by (simp add: deliver1_def hfp_timer_expiry_handler_def store_sco_index_def actions_of_def
      in_call_globals_def idle_globals_def sample_env_def)

text \<open>
  C3 (amended): with a call active and the voice channel not connected, every run of the
  expiry handler produces exactly one remove followed by one create-as-initiator; the
  handler leaves \<open>call_active\<close> and \<open>is_sco_connected\<close> as they are, so a second run with the
  channel still not connected produces the same two requests again.
\<close>

theorem every_expiry_removes_then_initiates:
  assumes "call_active g \<noteq> 0" and "\<not> is_sco_connected g"
  shows "deliver K [(E1, TIMER_EXPIRY), (E2, TIMER_EXPIRY)] g =
     Inr (store_sco_index E2 (store_sco_index E1 g),
          [[wiced_bt_sco_remove (sco_index g),
            wiced_bt_sco_create_as_initiator (peer_bd_addr g) (handsfree_esco_params (use_wbs g))],
           [wiced_bt_sco_remove (sco_index (store_sco_index E1 g)),
            wiced_bt_sco_create_as_initiator (peer_bd_addr g) (handsfree_esco_params (use_wbs g))]])"
  using assms
  by (simp add: deliver1_def hfp_timer_expiry_handler_def store_sco_index_def split: option.split)

theorem every_expiry_removes_then_initiates_witness:
  "deliver sample_hdr [(sample_env, TIMER_EXPIRY), (sample_env, TIMER_EXPIRY)] in_call_globals =
     Inr (in_call_globals,
          [[wiced_bt_sco_remove 1,
            wiced_bt_sco_create_as_initiator [1, 2, 3, 4, 5, 6] (handsfree_esco_params True)],
           [wiced_bt_sco_remove 1,
            wiced_bt_sco_create_as_initiator [1, 2, 3, 4, 5, 6] (handsfree_esco_params True)]])"
  using every_expiry_removes_then_initiates [of in_call_globals sample_hdr sample_env sample_env]
  by (simp add: in_call_globals_def idle_globals_def sample_env_def store_sco_index_def)

section \<open>Voice channel disconnect\<close>

text \<open>
  C9: when the voice channel is reported disconnected while it is connected (and the
  control block of the peer is found), the handler sends one Audio-closed event, issues a
  create-as-acceptor request right after it, and marks the channel as not connected.
\<close>

theorem sco_disconnected_reopens_as_acceptor:
  assumes "is_sco_connected g"
    and "wiced_bt_hfp_hf_get_scb_by_bd_addr E (peer_bd_addr g) = Some scb"
  shows "hf_sco_management_callback K E BTM_SCO_DISCONNECTED_EVT g =
     Inr ((store_sco_index E g)\<lparr>is_sco_connected := False\<rparr>,
          [wiced_transport_send_data HCI_CONTROL_HF_EVENT_AUDIO_CLOSE
             [ucast (scb_rfcomm_handle scb), ucast (drop_bit 8 (scb_rfcomm_handle scb))],
           wiced_bt_sco_create_as_acceptor])"
  using assms
  by (simp add: hf_sco_management_callback_def hci_control_send_hf_event_def)

theorem sco_disconnected_reopens_as_acceptor_witness:
  "hf_sco_management_callback sample_hdr sample_env BTM_SCO_DISCONNECTED_EVT
       (in_call_globals\<lparr>is_sco_connected := True\<rparr>) =
     Inr (in_call_globals,
          [wiced_transport_send_data HCI_CONTROL_HF_EVENT_AUDIO_CLOSE [1, 0],
           wiced_bt_sco_create_as_acceptor])"
  using sco_disconnected_reopens_as_acceptor
          [of "in_call_globals\<lparr>is_sco_connected := True\<rparr>" sample_env sample_scb sample_hdr]
  by (simp add: in_call_globals_def idle_globals_def sample_env_def sample_scb_def
      store_sco_index_def)

section \<open>Call indicator notifications\<close>

lemma takeWhile_stop: "\<not> P y \<Longrightarrow> takeWhile P (xs @ y # ys) = takeWhile P xs"
  by (induction xs) auto

lemma c_strlen_terminated: "c_strlen (s @ 0 # t) = Some (length (c_str s))"
  by (simp add: c_strlen_def c_str_def takeWhile_stop)

lemma c_str_le: "length (c_str s) \<le> length s"
  by (simp add: c_str_def length_takeWhile_le)

lemma take_c_str: "take (length (c_str s)) (s @ t) = c_str s"
proof -
  have "take (length (c_str s)) (s @ t) = take (length (c_str s)) s"
    using c_str_le [of s] by simp
  also have "\<dots> = c_str s"
    unfolding c_str_def by (rule takeWhile_eq_take [symmetric])
  finally show ?thesis .
qed

lemma send_at_terminated:
  assumes "length (c_str s) + 5 \<le> TX_BUF_SIZE"
  shows "hci_control_send_hf_event (HCI_CONTROL_HF_AT_EVENT e) handle
           (Some (p\<lparr>val_str := s @ 0 # t\<rparr>)) =
         Inr (wiced_transport_send_data (HCI_CONTROL_HF_AT_EVENT e)
                ([ucast handle, ucast (drop_bit 8 handle), ucast (val_num p),
                  ucast (drop_bit 8 (val_num p))] @ c_str s @ [0]))"
  using assms
  by (simp add: hci_control_send_hf_event_def c_strlen_terminated take_c_str del: take_append)

lemma send_ciev_ok:
  assumes "wiced_bt_hfp_hf_get_scb_by_handle E handle = Some scb"
    and "4 \<le> length (val_str p)" and "val_num p = 0"
  shows "handsfree_send_ciev_cmd K E handle ind_id ind_val p =
           Inr (p\<lparr>val_str := [48 + ind_id, 44, 48 + ind_val] @ 0 # drop 4 (val_str p)\<rparr>,
                indicator_change_event (scb_rfcomm_handle scb) ind_id ind_val)"
proof -
  have len: "length (c_str [48 + ind_id, 44, 48 + ind_val]) + 5 \<le> TX_BUF_SIZE"
    using c_str_le [of "[48 + ind_id, 44, 48 + ind_val]"] by (simp add: TX_BUF_SIZE_def)
  have w: "write_str 0 [48 + ind_id, 44, 48 + ind_val, 0] (val_str p) =
             Inr ([48 + ind_id, 44, 48 + ind_val] @ 0 # drop 4 (val_str p))"
  proof -
    have four: "length [48 + ind_id, 44, 48 + ind_val, 0] = 4" by simp
    show ?thesis
      unfolding write_str_def four using assms(2) by simp
  qed
  show ?thesis
    unfolding handsfree_send_ciev_cmd_def w
    using send_at_terminated [OF len, where e = HCI_CONTROL_HF_AT_EVENT_CIEV
        and handle = "scb_rfcomm_handle scb" and p = p and t = "drop 4 (val_str p)"] assms(1,3)
    by (simp add: indicator_change_event_def)
qed

lemma ciev_when_ok:
  assumes "wiced_bt_hfp_hf_get_scb_by_handle E handle = Some scb"
    and "4 \<le> length (val_str p)" and "val_num p = 0"
  shows "\<exists>p'. ciev_when c K E handle ind_id ind_val p =
           Inr (p', if c then [indicator_change_event (scb_rfcomm_handle scb) ind_id ind_val]
                    else [])
           \<and> 4 \<le> length (val_str p') \<and> val_num p' = 0"
  using assms send_ciev_ok [OF assms, of K ind_id ind_val]
  by (simp add: ciev_when_def)

lemma call_setup_evt_result:
  assumes "wiced_bt_hfp_hf_get_scb_by_handle E handle = Some scb"
    and "4 \<le> VAL_STR_SIZE K"
  shows "handsfree_event_callback K E handle (WICED_BT_HFP_HF_CALL_SETUP_EVT cd) g =
     Inr (g\<lparr>call_active := active_call_present cd, call_setup := setup_state cd,
            call_held := held_call_present cd\<rparr>,
          (if call_active g \<noteq> active_call_present cd
           then [indicator_change_event (scb_rfcomm_handle scb) (WICED_BT_HFP_HF_CALL_IND K)
                   (active_call_present cd)] else [])
          @ (if call_held g \<noteq> held_call_present cd
             then [indicator_change_event (scb_rfcomm_handle scb)
                     (WICED_BT_HFP_HF_CALL_HELD_IND K) (held_call_present cd)] else [])
          @ (if call_setup g \<noteq> setup_state cd
             then [indicator_change_event (scb_rfcomm_handle scb)
                     (WICED_BT_HFP_HF_CALL_SETUP_IND K) (setup_state cd)] else []))"
proof -
  have z: "4 \<le> length (val_str (zeroed_event K))" "val_num (zeroed_event K) = 0"
    using assms(2) by (simp_all add: zeroed_event_def)
  obtain p1 where s1: "ciev_when (call_active g \<noteq> active_call_present cd) K E handle
        (WICED_BT_HFP_HF_CALL_IND K) (active_call_present cd) (zeroed_event K) =
      Inr (p1, if call_active g \<noteq> active_call_present cd
               then [indicator_change_event (scb_rfcomm_handle scb) (WICED_BT_HFP_HF_CALL_IND K)
                   (active_call_present cd)] else [])"
    and i1: "4 \<le> length (val_str p1)" "val_num p1 = 0"
    using ciev_when_ok [OF assms(1) z] by blast
  obtain p2 where s2: "ciev_when (call_held g \<noteq> held_call_present cd) K E handle
        (WICED_BT_HFP_HF_CALL_HELD_IND K) (held_call_present cd) p1 =
      Inr (p2, if call_held g \<noteq> held_call_present cd
               then [indicator_change_event (scb_rfcomm_handle scb)
                       (WICED_BT_HFP_HF_CALL_HELD_IND K) (held_call_present cd)] else [])"
    and i2: "4 \<le> length (val_str p2)" "val_num p2 = 0"
    using ciev_when_ok [OF assms(1) i1] by blast
  obtain p3 where s3: "ciev_when (call_setup g \<noteq> setup_state cd) K E handle
        (WICED_BT_HFP_HF_CALL_SETUP_IND K) (setup_state cd) p2 =
      Inr (p3, if call_setup g \<noteq> setup_state cd
               then [indicator_change_event (scb_rfcomm_handle scb)
                       (WICED_BT_HFP_HF_CALL_SETUP_IND K) (setup_state cd)] else [])"
    using ciev_when_ok [OF assms(1) i2] by blast
  show ?thesis
    unfolding handsfree_event_callback_def Let_def
    by (simp only: hf_event.case s1 s2 s3 sum.case prod.case
        handsfree_call_setup_event_handler_def Let_def fst_conv)
qed

lemma call_setup_evt_same:
  assumes "call_active g = active_call_present cd" and "call_held g = held_call_present cd"
    and "call_setup g = setup_state cd"
  shows "handsfree_event_callback K E handle (WICED_BT_HFP_HF_CALL_SETUP_EVT cd) g = Inr (g, [])"
  using assms
  by (simp add: handsfree_event_callback_def ciev_when_def handsfree_call_setup_event_handler_def)

lemma call_setup_evt_fields:
  assumes "handsfree_event_callback K E handle (WICED_BT_HFP_HF_CALL_SETUP_EVT cd) g
             = Inr (g', acts)"
  shows "call_active g' = active_call_present cd \<and> call_held g' = held_call_present cd
     \<and> call_setup g' = setup_state cd"
  using assms
  by (auto simp add: handsfree_event_callback_def handsfree_call_setup_event_handler_def
      split: sum.splits prod.splits)

text \<open>
  C4: on a call-indicator notification (with the control block of the handle found and a
  text field of at least four bytes) each of the three indicators is compared with the
  stored value on its own; an indicator event carrying the indicator identifier and the
  new value is sent exactly for the indicators whose value differs, in the order active
  call, held call, call setup; a second notification with the same values sends nothing.
\<close>

theorem indicator_events_exactly_for_changes:
  assumes "wiced_bt_hfp_hf_get_scb_by_handle E handle = Some scb"
    and "4 \<le> VAL_STR_SIZE K"
  shows "\<exists>g'. handsfree_event_callback K E handle (WICED_BT_HFP_HF_CALL_SETUP_EVT cd) g =
     Inr (g',
          (if call_active g \<noteq> active_call_present cd
           then [indicator_change_event (scb_rfcomm_handle scb) (WICED_BT_HFP_HF_CALL_IND K)
                   (active_call_present cd)] else [])
          @ (if call_held g \<noteq> held_call_present cd
             then [indicator_change_event (scb_rfcomm_handle scb)
                     (WICED_BT_HFP_HF_CALL_HELD_IND K) (held_call_present cd)] else [])
          @ (if call_setup g \<noteq> setup_state cd
             then [indicator_change_event (scb_rfcomm_handle scb)
                     (WICED_BT_HFP_HF_CALL_SETUP_IND K) (setup_state cd)] else []))
     \<and> handsfree_event_callback K E2 handle2 (WICED_BT_HFP_HF_CALL_SETUP_EVT cd) g' = Inr (g', [])"
proof -
  let ?g' = "g\<lparr>call_active := active_call_present cd, call_setup := setup_state cd,
            call_held := held_call_present cd\<rparr>"
  have "handsfree_event_callback K E2 handle2 (WICED_BT_HFP_HF_CALL_SETUP_EVT cd) ?g'
          = Inr (?g', [])"
    by (rule call_setup_evt_same) simp_all
  then show ?thesis
    using call_setup_evt_result [OF assms, of cd g] by simp
qed

theorem indicator_events_exactly_for_changes_witness:
  "\<exists>g'. handsfree_event_callback sample_hdr sample_env 1
           (WICED_BT_HFP_HF_CALL_SETUP_EVT sample_call_answered) (idle_globals\<lparr>call_setup := 1\<rparr>) =
     Inr (g',
          [wiced_transport_send_data (HCI_CONTROL_HF_AT_EVENT HCI_CONTROL_HF_AT_EVENT_CIEV)
             [1, 0, 0, 0, 50, 44, 49, 0],
           wiced_transport_send_data (HCI_CONTROL_HF_AT_EVENT HCI_CONTROL_HF_AT_EVENT_CIEV)
             [1, 0, 0, 0, 51, 44, 48, 0]])
     \<and> handsfree_event_callback sample_hdr sample_env 1
           (WICED_BT_HFP_HF_CALL_SETUP_EVT sample_call_answered) g' = Inr (g', [])"
  using indicator_events_exactly_for_changes
          [of sample_env 1 sample_scb sample_hdr sample_call_answered
              "idle_globals\<lparr>call_setup := 1\<rparr>" sample_env 1]
  by (simp add: sample_env_def sample_hdr_def sample_scb_def sample_call_answered_def
      idle_globals_def indicator_change_event_def c_str_def)

text \<open>
  C10: after a call-indicator notification the stored \<open>call_active\<close>, \<open>call_held\<close> and
  \<open>call_setup\<close> equal the values of the notification. \<open>handsfree_call_setup_event_handler\<close>
  stores them in every branch; whenever the callback returns, they are stored; and the
  callback does return when the control block is found and the text field has four bytes,
  or when no indicator changed (then no event is sent at all).
\<close>

theorem call_state_stored_unconditionally:
  "call_active (fst (handsfree_call_setup_event_handler K cd g)) = active_call_present cd
   \<and> call_held (fst (handsfree_call_setup_event_handler K cd g)) = held_call_present cd
   \<and> call_setup (fst (handsfree_call_setup_event_handler K cd g)) = setup_state cd
   \<and> (\<forall>g' acts. handsfree_event_callback K E handle (WICED_BT_HFP_HF_CALL_SETUP_EVT cd) g
                    = Inr (g', acts)
        \<longrightarrow> call_active g' = active_call_present cd \<and> call_held g' = held_call_present cd
            \<and> call_setup g' = setup_state cd)
   \<and> ((wiced_bt_hfp_hf_get_scb_by_handle E handle \<noteq> None \<and> 4 \<le> VAL_STR_SIZE K)
        \<or> (call_active g = active_call_present cd \<and> call_held g = held_call_present cd
            \<and> call_setup g = setup_state cd)
       \<longrightarrow> (\<exists>g' acts. handsfree_event_callback K E handle (WICED_BT_HFP_HF_CALL_SETUP_EVT cd) g
                         = Inr (g', acts)))"
proof -
  have a: "call_active (fst (handsfree_call_setup_event_handler K cd g)) = active_call_present cd
   \<and> call_held (fst (handsfree_call_setup_event_handler K cd g)) = held_call_present cd
   \<and> call_setup (fst (handsfree_call_setup_event_handler K cd g)) = setup_state cd"
    by (simp add: handsfree_call_setup_event_handler_def Let_def)
  have b: "\<forall>g' acts. handsfree_event_callback K E handle (WICED_BT_HFP_HF_CALL_SETUP_EVT cd) g
                       = Inr (g', acts)
        \<longrightarrow> call_active g' = active_call_present cd \<and> call_held g' = held_call_present cd
            \<and> call_setup g' = setup_state cd"
    using call_setup_evt_fields by blast
  have c: "\<exists>g' acts. handsfree_event_callback K E handle (WICED_BT_HFP_HF_CALL_SETUP_EVT cd) g
                         = Inr (g', acts)"
    if "wiced_bt_hfp_hf_get_scb_by_handle E handle \<noteq> None \<and> 4 \<le> VAL_STR_SIZE K"
  proof -
    from that obtain scb where "wiced_bt_hfp_hf_get_scb_by_handle E handle = Some scb" by auto
    with that show ?thesis using call_setup_evt_result [of E handle scb K cd g] by blast
  qed
  have d: "\<exists>g' acts. handsfree_event_callback K E handle (WICED_BT_HFP_HF_CALL_SETUP_EVT cd) g
                         = Inr (g', acts)"
    if "call_active g = active_call_present cd \<and> call_held g = held_call_present cd
            \<and> call_setup g = setup_state cd"
    using that call_setup_evt_same [of g cd K E handle] by blast
  show ?thesis using a b c d by blast
qed

theorem call_state_stored_unconditionally_witness:
  "\<exists>g' acts. handsfree_event_callback sample_hdr sample_env 1
           (WICED_BT_HFP_HF_CALL_SETUP_EVT sample_call_answered) idle_globals = Inr (g', acts)
      \<and> call_active g' = 1 \<and> call_held g' = 0 \<and> call_setup g' = 0"
proof -
  have h: "wiced_bt_hfp_hf_get_scb_by_handle sample_env 1 \<noteq> None
             \<and> 4 \<le> VAL_STR_SIZE sample_hdr"
    by (simp add: sample_env_def sample_hdr_def)
  note t = call_state_stored_unconditionally
             [of sample_hdr sample_call_answered idle_globals sample_env 1]
  from t h obtain g' acts where r: "handsfree_event_callback sample_hdr sample_env 1
           (WICED_BT_HFP_HF_CALL_SETUP_EVT sample_call_answered) idle_globals = Inr (g', acts)"
    by blast
  with t have "call_active g' = active_call_present sample_call_answered
     \<and> call_held g' = held_call_present sample_call_answered
     \<and> call_setup g' = setup_state sample_call_answered"
    by blast
  with r show ?thesis by (auto simp add: sample_call_answered_def)
qed

section \<open>Codec negotiation and codec selection\<close>

lemma c_strlen_zeros: "0 < n \<Longrightarrow> c_strlen (replicate n 0) = Some 0"
  by (cases n) (simp_all add: c_strlen_def)

lemma send_res_connected:
  assumes "wiced_bt_hfp_hf_get_scb_by_handle E handle = Some scb"
  shows "\<exists>acts'. send_res K E handle (Some HCI_CONTROL_HF_EVENT_CONNECTED) p g acts
                    = Inr (g, acts')"
  using assms by (simp add: send_res_def hci_control_send_hf_event_def)

lemma send_res_empty_text:
  assumes "wiced_bt_hfp_hf_get_scb_by_handle E handle = Some scb"
    and "0 < n" and "val_str p = replicate n 0"
  shows "\<exists>acts'. send_res K E handle (Some (HCI_CONTROL_HF_AT_EVENT e)) p g acts
                    = Inr (g, acts')"
  using assms
  by (simp add: send_res_def hci_control_send_hf_event_def c_strlen_zeros TX_BUF_SIZE_def)

lemma ag_feature_use_wbs:
  assumes "WBS_INCLUDED K" and "wiced_bt_hfp_hf_get_scb_by_handle E handle = Some scb"
  shows "\<exists>g1 a1. handsfree_event_callback K E handle
                     (WICED_BT_HFP_HF_AG_FEATURE_SUPPORT_EVT flags) g = Inr (g1, a1)
           \<and> use_wbs g1 = (flags AND WICED_BT_HFP_AG_FEATURE_CODEC_NEGOTIATION K \<noteq> 0
                           \<and> feature_mask scb AND WICED_BT_HFP_HF_FEATURE_CODEC_NEGOTIATION K \<noteq> 0)"
proof (cases "flags AND WICED_BT_HFP_AG_FEATURE_CODEC_NEGOTIATION K \<noteq> 0")
  case True
  let ?g1 = "(if flags AND WICED_BT_HFP_AG_FEATURE_INBAND_RING_TONE_CAPABILITY K \<noteq> 0
                     then g\<lparr>inband_ring_status := WICED_BT_HFP_HF_INBAND_RING_ENABLED\<rparr>
                     else g\<lparr>inband_ring_status := WICED_BT_HFP_HF_INBAND_RING_DISABLED\<rparr>)
             \<lparr>use_wbs := (feature_mask scb AND WICED_BT_HFP_HF_FEATURE_CODEC_NEGOTIATION K \<noteq> 0)\<rparr>"
  obtain a where "send_res K E handle (Some HCI_CONTROL_HF_EVENT_CONNECTED)
       ((zeroed_event K)\<lparr>conn_peer_features := flags\<rparr>) ?g1 [] = Inr (?g1, a)"
    using send_res_connected [OF assms(2)] by blast
  then show ?thesis
    using True assms by (simp add: handsfree_event_callback_def Let_def)
next
  case False
  let ?g1 = "(if flags AND WICED_BT_HFP_AG_FEATURE_INBAND_RING_TONE_CAPABILITY K \<noteq> 0
                     then g\<lparr>inband_ring_status := WICED_BT_HFP_HF_INBAND_RING_ENABLED\<rparr>
                     else g\<lparr>inband_ring_status := WICED_BT_HFP_HF_INBAND_RING_DISABLED\<rparr>)
             \<lparr>use_wbs := False\<rparr>"
  obtain a where "send_res K E handle (Some HCI_CONTROL_HF_EVENT_CONNECTED)
       ((zeroed_event K)\<lparr>conn_peer_features := flags\<rparr>) ?g1 [] = Inr (?g1, a)"
    using send_res_connected [OF assms(2)] by blast
  then show ?thesis
    using False assms by (simp add: handsfree_event_callback_def Let_def)
qed

lemma codec_set_audio_use_wbs:
  "use_wbs (fst (codec_set_audio K E c g)) = (c = WICED_BT_HFP_HF_MSBC_CODEC K)"
  by (simp add: codec_set_audio_def Let_def)

lemma codec_set_use_wbs:
  assumes "wiced_bt_hfp_hf_get_scb_by_handle E handle = Some scb" and "0 < VAL_STR_SIZE K"
  shows "\<exists>g2 a2. handsfree_event_callback K E handle (WICED_BT_HFP_HFP_CODEC_SET_EVT c) g
                    = Inr (g2, a2)
           \<and> use_wbs g2 = (c = WICED_BT_HFP_HF_MSBC_CODEC K)"
proof -
  let ?g1 = "g\<lparr>use_wbs := (c = WICED_BT_HFP_HF_MSBC_CODEC K)\<rparr>"
  let ?g2 = "(if init_sco_conn ?g1 then ?g1\<lparr>init_sco_conn := False\<rparr> else ?g1)"
  let ?au = "(if AUDIO_MANAGER K then codec_set_audio K E c ?g2 else (?g2, []))"
  let ?tm = "(if init_sco_conn ?g1 then [wiced_start_timer (SCO_CONNECTION_WAIT_TIMEOUT K)]
              else [])"
  have u: "use_wbs (fst ?au) = (c = WICED_BT_HFP_HF_MSBC_CODEC K)"
    by (simp add: codec_set_audio_use_wbs)
  have "val_str ((zeroed_event K)\<lparr>val_num := ucast c\<rparr>) = replicate (VAL_STR_SIZE K) 0"
    by (simp add: zeroed_event_def)
  then obtain a where
    "send_res K E handle (Some (HCI_CONTROL_HF_AT_EVENT HCI_CONTROL_HF_AT_EVENT_BCS))
       ((zeroed_event K)\<lparr>val_num := ucast c\<rparr>) (fst ?au) (?tm @ snd ?au) = Inr (fst ?au, a)"
    using send_res_empty_text [OF assms(1) assms(2)] by blast
  then show ?thesis
    using u by (simp add: handsfree_event_callback_def Let_def)
qed

text \<open>
  C8: in a build with wide-band speech, the feature event of the gateway sets \<open>use_wbs\<close> to
  true exactly when the gateway flags have the codec negotiation bit and the local
  feature mask has it too; a later codec-selection event sets \<open>use_wbs\<close> to true exactly
  when the selected codec is mSBC, whatever the feature event had stored. Both events
  are processed with the control block of the handle found, and the text field of the
  event record is not empty.
\<close>

theorem codec_selection_overrides_negotiation:
  assumes "WBS_INCLUDED K"
    and "wiced_bt_hfp_hf_get_scb_by_handle E1 handle = Some scb1"
    and "wiced_bt_hfp_hf_get_scb_by_handle E2 handle = Some scb2"
    and "0 < VAL_STR_SIZE K"
  shows "\<exists>g1 a1. handsfree_event_callback K E1 handle
                     (WICED_BT_HFP_HF_AG_FEATURE_SUPPORT_EVT flags) g = Inr (g1, a1)
           \<and> use_wbs g1 = (flags AND WICED_BT_HFP_AG_FEATURE_CODEC_NEGOTIATION K \<noteq> 0
                           \<and> feature_mask scb1 AND WICED_BT_HFP_HF_FEATURE_CODEC_NEGOTIATION K \<noteq> 0)
           \<and> (\<exists>g2 a2. handsfree_event_callback K E2 handle (WICED_BT_HFP_HFP_CODEC_SET_EVT c) g1
                         = Inr (g2, a2)
                 \<and> use_wbs g2 = (c = WICED_BT_HFP_HF_MSBC_CODEC K))"
  using ag_feature_use_wbs [OF assms(1,2), of flags g] codec_set_use_wbs [OF assms(3,4), of c]
  by blast

theorem codec_selection_overrides_negotiation_witness:
  "\<exists>g1 a1. handsfree_event_callback sample_hdr sample_env 1
               (WICED_BT_HFP_HF_AG_FEATURE_SUPPORT_EVT 0x200) (idle_globals\<lparr>use_wbs := False\<rparr>)
             = Inr (g1, a1)
           \<and> use_wbs g1 = True
           \<and> (\<exists>g2 a2. handsfree_event_callback sample_hdr sample_env 1
                         (WICED_BT_HFP_HFP_CODEC_SET_EVT 1) g1 = Inr (g2, a2)
                 \<and> use_wbs g2 = False)"
  using codec_selection_overrides_negotiation
          [of sample_hdr sample_env 1 sample_scb sample_env sample_scb "0x200"
              "idle_globals\<lparr>use_wbs := False\<rparr>" 1]
  by (simp add: sample_hdr_def sample_env_def sample_scb_def)

section \<open>The volume mapping on the profile scale\<close>

lemma sdiv_nonneg: "0 \<le> p \<Longrightarrow> (p::int) sdiv 15 = p div 15"
  by (simp add: signed_divide_int_eq_divide_int sgn_if)

lemma smod_nonneg: "0 \<le> p \<Longrightarrow> (p::int) smod 15 = p mod 15"
  by (simp add: signed_modulo_int_eq_modulo_int sgn_if)

lemma sint_of_int32: "sint (word_of_int k :: u32) = signed_take_bit 31 k"
  by (simp add: signed_of_int)

lemma sint_small_product:
  fixes vol am :: u32
  assumes "uint vol \<le> 15" and "uint am < 2 ^ 27"
  shows "sint (vol * am) = uint vol * uint am"
proof -
  have nonneg: "0 \<le> uint vol * uint am" by simp
  have "uint vol * uint am \<le> 15 * uint am"
    using assms(1) by (simp add: mult_right_mono)
  also have "\<dots> < 2 ^ 31" using assms(2) by simp
  finally have lt: "uint vol * uint am < 2 ^ 31" .
  have "sint (vol * am) = sint (word_of_int (uint vol * uint am) :: u32)"
    by simp
  also have "\<dots> = signed_take_bit 31 (uint vol * uint am)"
    by (rule sint_of_int32)
  also have "\<dots> = uint vol * uint am"
  proof (rule signed_take_bit_int_eq_self)
    have "- (2 ^ 31) \<le> (0::int)" by simp
    then show "- (2 ^ 31) \<le> uint vol * uint am" using nonneg by (rule order_trans)
    show "uint vol * uint am < 2 ^ 31" by (rule lt)
  qed
  finally show ?thesis .
qed

lemma uint_small: "0 \<le> k \<Longrightarrow> k < 2 ^ 32 \<Longrightarrow> uint (word_of_int k :: u32) = k"
  by (simp add: uint_word_of_int)

lemma volume_formula:
  assumes "uint vol \<le> 15" and "uint (AM_VOL_LEVEL_HIGH K) < 2 ^ 27"
  shows "uint (handsfree_utils_hfp_volume_to_am_volume K vol) =
           (uint vol * uint (AM_VOL_LEVEL_HIGH K)) div 15
           + (if (uint vol * uint (AM_VOL_LEVEL_HIGH K)) mod 15 \<ge> uint (AM_VOL_LEVEL_HIGH K)
              then 1 else 0)"
proof -
  define p where "p = uint vol * uint (AM_VOL_LEVEL_HIGH K)"
  have p0: "0 \<le> p" by (simp add: p_def)
  have "p \<le> 15 * uint (AM_VOL_LEVEL_HIGH K)"
    unfolding p_def using assms(1) by (simp add: mult_right_mono)
  then have p1: "p < 2 ^ 31" using assms(2) by simp
  have sp: "sint (vol * AM_VOL_LEVEL_HIGH K) = p"
    unfolding p_def by (rule sint_small_product [OF assms])
  have q0: "0 \<le> p div 15" using p0 by simp
  have q1: "p div 15 < 2 ^ 31" using p0 p1 by (simp add: div_less_iff_less_mult)
  have uq: "uint (word_of_int (p div 15) :: u32) = p div 15"
    using q0 q1 by (simp add: uint_small)
  have ur: "uint (word_of_int (p mod 15) :: u32) = p mod 15"
    by (simp add: uint_small)
  have uq1: "uint (word_of_int (p div 15) + 1 :: u32) = p div 15 + 1"
  proof -
    have "(word_of_int (p div 15) + 1 :: u32) = word_of_int (p div 15 + 1)" by simp
    moreover have "uint (word_of_int (p div 15 + 1) :: u32) = p div 15 + 1"
      using q0 q1 by (intro uint_small) simp_all
    ultimately show ?thesis by simp
  qed
  show ?thesis
    unfolding handsfree_utils_hfp_volume_to_am_volume_def HFP_VOLUME_HIGH_def Let_def sp
    using p0 uq ur uq1
    by (simp add: sdiv_nonneg smod_nonneg word_le_def p_def)
qed

text \<open>
  C5: for every profile level from 0 to \<open>HFP_VOLUME_HIGH\<close> (and a device maximum below
  \<open>2 ^ 27\<close>, so that the 32-bit product does not overflow) the mapping returns the floor of
  level times device maximum divided by \<open>HFP_VOLUME_HIGH\<close>, plus one exactly when the
  remainder of that division is at least the device maximum; with a device maximum of
  16 the level 8 is mapped to 8.
\<close>

theorem volume_mapping:
  "(uint vol \<le> HFP_VOLUME_HIGH \<and> uint (AM_VOL_LEVEL_HIGH K) < 2 ^ 27 \<longrightarrow>
      uint (handsfree_utils_hfp_volume_to_am_volume K vol) =
        (uint vol * uint (AM_VOL_LEVEL_HIGH K)) div HFP_VOLUME_HIGH
        + (if (uint vol * uint (AM_VOL_LEVEL_HIGH K)) mod HFP_VOLUME_HIGH
                \<ge> uint (AM_VOL_LEVEL_HIGH K)
           then 1 else 0))
   \<and> (AM_VOL_LEVEL_HIGH K = 16 \<longrightarrow> handsfree_utils_hfp_volume_to_am_volume K 8 = 8)"
proof -
  have "handsfree_utils_hfp_volume_to_am_volume K 8 = 8" if "AM_VOL_LEVEL_HIGH K = 16"
    using that
    by (simp add: handsfree_utils_hfp_volume_to_am_volume_def HFP_VOLUME_HIGH_def Let_def
        signed_divide_int_def signed_modulo_int_def)
  then show ?thesis
    using volume_formula [of vol K] by (simp add: HFP_VOLUME_HIGH_def)
qed

theorem volume_mapping_witness:
  "uint (handsfree_utils_hfp_volume_to_am_volume sample_hdr 8) = 8
   \<and> uint (handsfree_utils_hfp_volume_to_am_volume (sample_hdr\<lparr>AM_VOL_LEVEL_HIGH := 10\<rparr>) 13) = 9
   \<and> handsfree_utils_hfp_volume_to_am_volume sample_hdr 8 = 8"
  using volume_mapping [of 8 sample_hdr]
    volume_mapping [of 13 "sample_hdr\<lparr>AM_VOL_LEVEL_HIGH := 10\<rparr>"]
  by (simp add: sample_hdr_def HFP_VOLUME_HIGH_def)

section \<open>Text fields of the events\<close>

lemma strncpy_fits: "length (c_strncpy n src) = n"
  by (simp add: c_strncpy_def c_str_le)

text \<open>The caller-ID branch bounds its copy with the size of the field, but a text that
  fills the field is left without a terminator, and sending the event reads on past the
  field.\<close>

lemma clip_unterminated:
  assumes "wiced_bt_hfp_hf_get_scb_by_handle E handle = Some scb"
    and "RES_IN_RANGE K (HCI_CONTROL_HF_AT_EVENT HCI_CONTROL_HF_AT_EVENT_CLIP)"
    and "VAL_STR_SIZE K \<le> length (c_str caller_num)"
  shows "handsfree_event_callback K E handle (WICED_BT_HFP_HF_CLIP_IND_EVT type caller_num) g
           = Inl READ_PAST_BUFFER"
proof -
  have "0 \<notin> set (take (VAL_STR_SIZE K) (c_str caller_num))"
    unfolding c_str_def by (metis (mono_tags, lifting) in_set_takeD set_takeWhileD)
  then show ?thesis
    using assms
    by (simp add: handsfree_event_callback_def send_res_def hci_control_send_hf_event_def
        c_strncpy_def zeroed_event_def c_strlen_def)
qed

text \<open>
  C6 (the code departs from it): a text longer than the text field of the event record
  must be cut to the size of the field and never be written past it. The subscriber
  number branch copies \<^verbatim>\<open>strlen(cnum_data)\<close> bytes with no bound: when the number has more
  characters than the field has bytes, the copy runs past the field.
\<close>

theorem cnum_longer_than_field_overruns:
  "VAL_STR_SIZE K < length (c_str cnum_data) \<Longrightarrow>
   handsfree_event_callback K E handle (WICED_BT_HFP_HF_CNUM_EVT cnum_data) g
     = Inl WRITE_PAST_BUFFER"
  by (simp add: handsfree_event_callback_def write_str_def zeroed_event_def)

theorem cnum_longer_than_field_overruns_witness:
  "handsfree_event_callback sample_hdr sample_env 1
       (WICED_BT_HFP_HF_CNUM_EVT (replicate 33 49)) idle_globals
     = Inl WRITE_PAST_BUFFER"
  using cnum_longer_than_field_overruns [of sample_hdr "replicate 33 49" sample_env 1 idle_globals]
  by (simp add: sample_hdr_def c_str_def)

end
